theory Spec2Isabelle
  imports Main "HOL-Library.Word"
begin

unbundle bit_operations_syntax

text \<open>
  A model of the replicated file handle of haraqafs: the struct \<^verbatim>\<open>File\<close> of file.go with
  its methods \<^verbatim>\<open>Close\<close>, \<^verbatim>\<open>Read\<close>, \<^verbatim>\<open>ReadAt\<close>, \<^verbatim>\<open>Write\<close>, \<^verbatim>\<open>WriteAt\<close> and \<^verbatim>\<open>Seek\<close>, the
  options of part_000, \<^verbatim>\<open>aggErrors\<close> of part_001, and \<^verbatim>\<open>New\<close>, \<^verbatim>\<open>consensus\<close>, \<^verbatim>\<open>source\<close> and
  \<^verbatim>\<open>isSourceOfTruth\<close> of part_002. Calls run one after the other; a call that does not
  return (it waits for the gate, or a loop does not end) has the result \<open>None\<close>.
\<close>

section \<open>Errors\<close>

type_synonym byte = "8 word"
type_synonym int64 = "64 word"

text \<open>
  Go error values. \<open>Wrap s e\<close> is \<^verbatim>\<open>fmt.Errorf(s + ": %w", e)\<close>, \<open>Errorf s\<close> is
  \<^verbatim>\<open>fmt.Errorf(s)\<close> without a wrapped error, \<open>Multiple es\<close> is the message built by
  \<^verbatim>\<open>fmt.Errorf("multiple errors received %+v", errs)\<close> (formatted, not wrapped).
  \<open>ErrOS s\<close> is a failure reported by the operating system. \<open>Panic s\<close> is not a returned
  value: it stands for a run-time panic that unwinds the call.
\<close>

datatype error =
    ErrInvalid
  | ErrClosed
  | ErrShortWrite
  | EOF
  | ErrOS string
  | Errorf string
  | Wrap string error
  | Multiple "error list"
  | Panic string

text \<open>\<^verbatim>\<open>errors.Is\<close>: follows the chain of wrapped errors.\<close>

fun errors_Is :: "error \<Rightarrow> error \<Rightarrow> bool" where
  "errors_Is (Wrap s e) t = (Wrap s e = t \<or> errors_Is e t)"
| "errors_Is e t = (e = t)"

text \<open>part_001, \<^verbatim>\<open>aggErrors\<close>.\<close>

fun aggErrors :: "error list \<Rightarrow> error option" where
  "aggErrors [] = None"
| "aggErrors [e] = Some e"
| "aggErrors errs = Some (Multiple errs)"

section \<open>The single-volume file primitive\<close>

text \<open>
  The repository calls Go's \<^verbatim>\<open>*os.File\<close>. The model is an in-memory file: its bytes,
  the seek position of the open file description, and a plan of injected failures, one
  per operation, so that every error branch of the callers can be taken. A write fault
  is either an error or a short write that reports no error. Files are opened without
  \<^verbatim>\<open>O_APPEND\<close>, and two handles never stand for the same file (the volumes differ).
\<close>

datatype wfault = WFail error | WShort nat

record osfile =
  fname :: string
  fdata :: "byte list"
  fpos :: nat
  fisdir :: bool
  fmodtime :: int
  fclosed :: bool
  stat_fault :: "error option"
  read_fault :: "error option"
  write_fault :: "wfault option"
  trunc_fault :: "error option"
  sync_fault :: "error option"
  close_fault :: "error option"

record fileinfo =
  fi_size :: int
  fi_modtime :: int
  fi_isdir :: bool

text \<open>Bytes of a file after writing \<open>bs\<close> at offset \<open>off\<close> (a gap is filled with zeros).\<close>

definition pwrite :: "byte list \<Rightarrow> nat \<Rightarrow> byte list \<Rightarrow> byte list" where
  "pwrite d off bs =
     take off d @ replicate (off - length d) 0 @ bs @ drop (off + length bs) d"

text \<open>
  The methods of \<^verbatim>\<open>*os.File\<close>, on a slot that may be nil (\<open>None\<close>): a nil receiver
  gives \<^verbatim>\<open>os.ErrInvalid\<close>.
\<close>

definition file_Stat :: "osfile option \<Rightarrow> error + fileinfo" where
  "file_Stat r =
     (case r of
        None \<Rightarrow> Inl ErrInvalid
      | Some h \<Rightarrow>
          if fclosed h then Inl ErrClosed
          else (case stat_fault h of
                  Some e \<Rightarrow> Inl e
                | None \<Rightarrow> Inr \<lparr>fi_size = int (length (fdata h)),
                               fi_modtime = fmodtime h, fi_isdir = fisdir h\<rparr>))"

text \<open>\<^verbatim>\<open>ReadAt(b, off)\<close> with \<open>n = len(b)\<close>: the bytes read and the error.\<close>

definition file_ReadAt :: "osfile option \<Rightarrow> nat \<Rightarrow> int \<Rightarrow> byte list \<times> error option" where
  "file_ReadAt r n off =
     (case r of
        None \<Rightarrow> ([], Some ErrInvalid)
      | Some h \<Rightarrow>
          if off < 0 then ([], Some (Errorf ''negative offset''))
          else if n = 0 then ([], None)
          else if fclosed h then ([], Some ErrClosed)
          else (case read_fault h of
                  Some e \<Rightarrow> ([], Some e)
                | None \<Rightarrow>
                    let chunk = take n (drop (nat off) (fdata h))
                    in (chunk, if length chunk < n then Some EOF else None)))"

text \<open>
  \<^verbatim>\<open>io.Copy(dst, file)\<close> as far as the file is concerned: reads from the seek position
  to the end of the file and leaves the position there.
\<close>

definition file_ReadAll :: "osfile option \<Rightarrow> osfile option \<times> (error + byte list)" where
  "file_ReadAll r =
     (case r of
        None \<Rightarrow> (None, Inl ErrInvalid)
      | Some h \<Rightarrow>
          if fclosed h then (Some h, Inl ErrClosed)
          else if fisdir h then (Some h, Inl (ErrOS ''is a directory''))
          else (case read_fault h of
                  Some e \<Rightarrow> (Some h, Inl e)
                | None \<Rightarrow> (Some (h\<lparr>fpos := max (fpos h) (length (fdata h))\<rparr>),
                           Inr (drop (fpos h) (fdata h)))))"

text \<open>\<^verbatim>\<open>Write(b)\<close>: writes at the seek position and advances it.\<close>

definition file_Write :: "osfile option \<Rightarrow> byte list \<Rightarrow> osfile option \<times> nat \<times> error option" where
  "file_Write r b =
     (case r of
        None \<Rightarrow> (None, 0, Some ErrInvalid)
      | Some h \<Rightarrow>
          if fclosed h then (Some h, 0, Some ErrClosed)
          else if b = [] then (Some h, 0, None)
          else (case write_fault h of
                  Some (WFail e) \<Rightarrow> (Some h, 0, Some e)
                | Some (WShort k) \<Rightarrow>
                    (Some (h\<lparr>fdata := pwrite (fdata h) (fpos h) (take k b),
                              fpos := fpos h + length (take k b)\<rparr>),
                     length (take k b), None)
                | None \<Rightarrow>
                    (Some (h\<lparr>fdata := pwrite (fdata h) (fpos h) b,
                              fpos := fpos h + length b\<rparr>),
                     length b, None)))"

text \<open>\<^verbatim>\<open>WriteAt(b, off)\<close>: writes at \<open>off\<close>, the seek position is untouched.\<close>

definition file_WriteAt ::
  "osfile option \<Rightarrow> byte list \<Rightarrow> int \<Rightarrow> osfile option \<times> nat \<times> error option" where
  "file_WriteAt r b off =
     (case r of
        None \<Rightarrow> (None, 0, Some ErrInvalid)
      | Some h \<Rightarrow>
          if off < 0 then (Some h, 0, Some (Errorf ''negative offset''))
          else if b = [] then (Some h, 0, None)
          else if fclosed h then (Some h, 0, Some ErrClosed)
          else (case write_fault h of
                  Some (WFail e) \<Rightarrow> (Some h, 0, Some e)
                | Some (WShort k) \<Rightarrow>
                    (Some (h\<lparr>fdata := pwrite (fdata h) (nat off) (take k b)\<rparr>),
                     length (take k b), None)
                | None \<Rightarrow>
                    (Some (h\<lparr>fdata := pwrite (fdata h) (nat off) b\<rparr>), length b, None)))"

definition file_Truncate :: "osfile option \<Rightarrow> int \<Rightarrow> osfile option \<times> error option" where
  "file_Truncate r n =
     (case r of
        None \<Rightarrow> (None, Some ErrInvalid)
      | Some h \<Rightarrow>
          if fclosed h then (Some h, Some ErrClosed)
          else if n < 0 then (Some h, Some (ErrOS ''invalid argument''))
          else (case trunc_fault h of
                  Some e \<Rightarrow> (Some h, Some e)
                | None \<Rightarrow>
                    (Some (h\<lparr>fdata := take (nat n) (fdata h)
                                       @ replicate (nat n - length (fdata h)) 0\<rparr>),
                     None)))"

definition file_Sync :: "osfile option \<Rightarrow> error option" where
  "file_Sync r =
     (case r of
        None \<Rightarrow> Some ErrInvalid
      | Some h \<Rightarrow> if fclosed h then Some ErrClosed else sync_fault h)"

text \<open>
  \<^verbatim>\<open>Close()\<close>: a closed file reports \<^verbatim>\<open>os.ErrClosed\<close>; an open one is released even
  when the close reports a failure.
\<close>

definition file_Close :: "osfile \<Rightarrow> osfile \<times> error option" where
  "file_Close h =
     (if fclosed h then (h, Some (Wrap (''close '' @ fname h) ErrClosed))
      else (h\<lparr>fclosed := True\<rparr>, close_fault h))"

section \<open>The replicated file\<close>

text \<open>file.go, \<^verbatim>\<open>type File struct\<close>, and part_002, \<^verbatim>\<open>quorumFailEnum\<close>.\<close>

datatype quorumFailEnum =
    QFError
  | QFWriteFirst
  | QFWriteLast
  | QFOrderFirst
  | QFOrderLast
  | QFLongest
  | QFShortest
  | QFShortestNonZero

text \<open>
  The field \<^verbatim>\<open>lock chan struct{}\<close>, a channel of capacity one: nil, holding its token
  (\<open>GateFree\<close>), empty because a call took the token (\<open>GateHeld\<close>), or closed.
\<close>

datatype gate = GateNil | GateFree | GateHeld | GateClosed

text \<open>The operations of the primitive, as they are recorded in the log below.\<close>

datatype ioop =
    OpStat
  | OpReadAll
  | OpReadAt nat int
  | OpWrite "byte list"
  | OpWriteAt "byte list" int
  | OpTruncate int
  | OpSync
  | OpClose
  | OpCreate
  | OpMkdirAll

text \<open>
  The struct. \<open>iolog\<close> is not a field of the Go struct: it records, in order, every call
  the methods make on a replica (its index and the operation), so that statements about
  which I/O happened, and in which order, can be made. The methods are modelled on a
  receiver that is not nil; on a nil receiver each of them returns \<^verbatim>\<open>os.ErrInvalid\<close> at
  once.
\<close>

record File =
  quorum :: int
  volumes :: "string list"
  flags :: nat
  perms :: nat
  hashing :: "(byte list \<Rightarrow> byte list) option"
  appendOnly :: bool
  quorumFail :: quorumFailEnum
  forceSync :: bool
  paths :: "string list"
  multi :: "osfile option list"
  offset :: int64
  lock :: gate
  iolog :: "(nat \<times> ioop) list"

definition logop :: "nat \<Rightarrow> ioop \<Rightarrow> File \<Rightarrow> File" where
  "logop i op f = f\<lparr>iolog := iolog f @ [(i, op)]\<rparr>"

text \<open>\<^verbatim>\<open>f.paths[i]\<close>: an index out of range panics.\<close>

definition path_at :: "File \<Rightarrow> nat \<Rightarrow> error + string" where
  "path_at f i =
     (if i < length (paths f) then Inr (paths f ! i) else Inl (Panic ''index out of range''))"

text \<open>
  \<^verbatim>\<open>fmt.Errorf(msg + "%s: %w", f.paths[i], e)\<close>: the wrapped error, or the panic of the
  index expression.
\<close>

definition errorf_path :: "File \<Rightarrow> nat \<Rightarrow> string \<Rightarrow> error \<Rightarrow> error" where
  "errorf_path f i msg e =
     (case path_at f i of Inl p \<Rightarrow> p | Inr path \<Rightarrow> Wrap (msg @ path) e)"

subsection \<open>Close\<close>

text \<open>
  file.go, \<^verbatim>\<open>Close\<close>, the loop of lines 96-109. The result is the state and either a
  panic or the collected \<open>errs\<close> and \<open>closedErrs\<close>.
\<close>

function Close_loop ::
  "File \<Rightarrow> nat \<Rightarrow> error list \<Rightarrow> nat \<Rightarrow> File \<times> (error + error list \<times> nat)" where
  "Close_loop f i errs closedErrs =
     (if i < length (multi f) then
        (case multi f ! i of
           None \<Rightarrow> Close_loop f (Suc i) errs closedErrs
         | Some h \<Rightarrow>
             (case file_Close h of
                (h', None) \<Rightarrow>
                  Close_loop (logop i OpClose (f\<lparr>multi := (multi f)[i := Some h']\<rparr>))
                    (Suc i) errs closedErrs
              | (h', Some err) \<Rightarrow>
                  (let f1 = logop i OpClose (f\<lparr>multi := (multi f)[i := Some h']\<rparr>);
                       closedErrs1 = (if errors_Is err ErrClosed then closedErrs + 1
                                      else closedErrs)
                   in (case path_at f i of
                         Inl p \<Rightarrow> (f1, Inl p)
                       | Inr path \<Rightarrow>
                           Close_loop f1 (Suc i)
                             (errs @ [Wrap (''close '' @ path) err]) closedErrs1))))
      else (f, Inr (errs, closedErrs)))"
  by pat_completeness auto
termination
  by (relation "measure (\<lambda>(f, i, errs, c). length (multi f) - i)")
     (auto simp: logop_def)

declare Close_loop.simps [simp del]

text \<open>
  file.go, \<^verbatim>\<open>Close\<close>. \<open>None\<close>: the receive on the channel blocks (the token is held and
  nothing in a sequential run gives it back). Otherwise the state after the call and
  the returned error.
\<close>

definition Close :: "File \<Rightarrow> (File \<times> error option) option" where
  "Close f =
     (if length (multi f) = 0 \<or> lock f = GateNil then Some (f, Some ErrInvalid)
      else case lock f of
        GateHeld \<Rightarrow> None
      | GateClosed \<Rightarrow> Some (f, Some ErrClosed)
      | _ \<Rightarrow>
        (case Close_loop (f\<lparr>lock := GateHeld\<rparr>) 0 [] 0 of
           (f1, Inl p) \<Rightarrow> Some (f1, Some p)
         | (f1, Inr (errs, closedErrs)) \<Rightarrow>
             if length errs = 0 \<or> length errs = closedErrs then
               (let f2 = f1\<lparr>lock := GateClosed\<rparr>
                in if length (multi f2) = closedErrs then Some (f2, Some ErrClosed)
                   else Some (f2, None))
             else Some (f1\<lparr>lock := GateFree\<rparr>, aggErrors errs)))"

subsection \<open>Read and ReadAt\<close>

text \<open>
  file.go, \<^verbatim>\<open>ReadAt\<close>, the loop of lines 152-157, from index \<open>k - 1\<close> down to 0; the
  accumulator is the pair \<open>(n, err)\<close> of the last replica tried, with the bytes read.
\<close>

primrec ReadAt_loop ::
  "File \<Rightarrow> nat \<Rightarrow> int64 \<Rightarrow> nat \<Rightarrow> byte list \<times> error option
     \<Rightarrow> File \<times> byte list \<times> error option" where
  "ReadAt_loop f n off 0 acc = (f, acc)"
| "ReadAt_loop f n off (Suc i) acc =
     (case file_ReadAt (multi f ! i) n (sint off) of
        (chunk, err) \<Rightarrow>
          (let f1 = logop i (OpReadAt n (sint off)) f
           in (if err = None \<or> length chunk > 0 then (f1, chunk, err)
               else ReadAt_loop f1 n off i (chunk, err))))"

text \<open>
  file.go, \<^verbatim>\<open>ReadAt\<close>, for a buffer of length \<open>n\<close>: the state after the call, the
  bytes read (their number is the returned count) and the error.
\<close>

definition ReadAt :: "File \<Rightarrow> nat \<Rightarrow> int64 \<Rightarrow> (File \<times> byte list \<times> error option) option" where
  "ReadAt f n off =
     (if length (multi f) = 0 \<or> lock f = GateNil then Some (f, [], Some ErrInvalid)
      else case lock f of
        GateHeld \<Rightarrow> None
      | GateClosed \<Rightarrow> Some (f, [], Some ErrClosed)
      | _ \<Rightarrow>
        (case ReadAt_loop (f\<lparr>lock := GateHeld\<rparr>) n off (length (multi f)) ([], None) of
           (f1, chunk, err) \<Rightarrow>
             Some (f1\<lparr>offset := offset f1 + of_nat (length chunk), lock := GateFree\<rparr>,
                   chunk, err)))"

definition Read :: "File \<Rightarrow> nat \<Rightarrow> (File \<times> byte list \<times> error option) option" where
  "Read f n = ReadAt f n (offset f)"

subsection \<open>Write and WriteAt\<close>

text \<open>file.go, \<^verbatim>\<open>WriteAt\<close>, the loop of lines 228-241.\<close>

function WriteAt_loop :: "File \<Rightarrow> byte list \<Rightarrow> int64 \<Rightarrow> nat \<Rightarrow> File \<times> error option" where
  "WriteAt_loop f b off i =
     (if i < length (multi f) then
        (case file_WriteAt (multi f ! i) b (sint off) of
           (r1, n, err) \<Rightarrow>
             (let f1 = logop i (OpWriteAt b (sint off)) (f\<lparr>multi := (multi f)[i := r1]\<rparr>)
              in (case err of
                    Some e \<Rightarrow> (f1, Some (errorf_path f i ''write failed on file '' e))
                  | None \<Rightarrow>
                      if n \<noteq> length b then
                        (f1, Some (errorf_path f i ''write failed on file '' ErrShortWrite))
                      else if forceSync f then
                        (let f2 = logop i OpSync f1
                         in (case file_Sync r1 of
                               Some e \<Rightarrow> (f2, Some (errorf_path f i ''sync failed on file '' e))
                             | None \<Rightarrow> WriteAt_loop f2 b off (Suc i)))
                      else WriteAt_loop f1 b off (Suc i))))
      else (f, None))"
  by pat_completeness auto
termination
  by (relation "measure (\<lambda>(f, b, off, i). length (multi f) - i)")
     (auto simp: logop_def)

declare WriteAt_loop.simps [simp del]

text \<open>
  file.go, \<^verbatim>\<open>WriteAt\<close>: the state after the call, the returned count and the error.
  The deferred send gives the token back on every exit after the receive.
\<close>

definition WriteAt :: "File \<Rightarrow> byte list \<Rightarrow> int64 \<Rightarrow> (File \<times> nat \<times> error option) option" where
  "WriteAt f b off =
     (if length (multi f) = 0 \<or> lock f = GateNil then Some (f, 0, Some ErrInvalid)
      else case lock f of
        GateHeld \<Rightarrow> None
      | GateClosed \<Rightarrow> Some (f, 0, Some ErrClosed)
      | _ \<Rightarrow>
        (case WriteAt_loop (f\<lparr>lock := GateHeld\<rparr>) b off 0 of
           (f1, Some e) \<Rightarrow> Some (f1\<lparr>lock := GateFree\<rparr>, 0, Some e)
         | (f1, None) \<Rightarrow>
             Some (f1\<lparr>offset := offset f1 + of_nat (length b), lock := GateFree\<rparr>,
                   length b, None)))"

definition Write :: "File \<Rightarrow> byte list \<Rightarrow> (File \<times> nat \<times> error option) option" where
  "Write f b = WriteAt f b (offset f)"

subsection \<open>Seek\<close>

text \<open>file.go, \<^verbatim>\<open>Seek\<close>; \<open>whence\<close> is 0 (start), 1 (current) or 2 (end).\<close>

definition Seek :: "File \<Rightarrow> int64 \<Rightarrow> nat \<Rightarrow> File \<times> int64 \<times> error option" where
  "Seek f off whence =
     (let f1 = (if whence = 0 then f\<lparr>offset := off\<rparr>
                else if whence = 1 then f\<lparr>offset := offset f + off\<rparr>
                else f)
      in (f1, offset f1, None))"

section \<open>Options\<close>

text \<open>part_000. An option is a function on the struct that may fail.\<close>

type_synonym FileOption = "File \<Rightarrow> error + File"

text \<open>\<^verbatim>\<open>filepath.Clean\<close> and \<^verbatim>\<open>filepath.Join\<close>, on paths that are clean already.\<close>

definition path_Clean :: "string \<Rightarrow> string" where
  "path_Clean p = p"

definition path_Join :: "string \<Rightarrow> string \<Rightarrow> string" where
  "path_Join v n = path_Clean (v @ ''/'' @ n)"

definition WithQuorum :: "int \<Rightarrow> FileOption" where
  "WithQuorum n f =
     (if n \<le> 0 then Inl (Wrap ''quorum must be greater than 0'' ErrInvalid)
      else Inr (f\<lparr>quorum := n\<rparr>))"

text \<open>
  \<^verbatim>\<open>WithVolumes\<close>; the two slices taken from the pools are empty after \<^verbatim>\<open>[:0]\<close>.
\<close>

definition WithVolumes :: "string list \<Rightarrow> FileOption" where
  "WithVolumes vs f =
     (if length vs = 0 then Inl (Wrap ''missing volumes'' ErrInvalid)
      else Inr (f\<lparr>volumes := map path_Clean vs, paths := [], multi := []\<rparr>))"

text \<open>
  \<^verbatim>\<open>WithFlags\<close>, \<^verbatim>\<open>WithCreate\<close> and \<^verbatim>\<open>WithCreateIfNotExist\<close>, with the values of Linux:
  \<^verbatim>\<open>O_WRONLY\<close> is 1, \<^verbatim>\<open>O_RDWR\<close> is 2, \<^verbatim>\<open>O_CREATE\<close> is 64, \<^verbatim>\<open>O_TRUNC\<close> is 512, and the
  permissions \<^verbatim>\<open>0666\<close> are 438.
\<close>

definition WithFlags :: "nat \<Rightarrow> FileOption" where
  "WithFlags fl f =
     (let fl1 = (if fl AND 1 \<noteq> 0 then fl XOR 1 else fl);
          fl2 = (if fl1 AND 2 = 0 then fl1 OR 2 else fl1)
      in Inr (f\<lparr>flags := fl2\<rparr>))"

definition WithCreate :: FileOption where
  "WithCreate f = Inr (f\<lparr>flags := 2 OR 64 OR 512, perms := 438\<rparr>)"

definition WithCreateIfNotExist :: FileOption where
  "WithCreateIfNotExist f = Inr (f\<lparr>flags := 2 OR 64, perms := 438\<rparr>)"

definition WithHashing :: "(byte list \<Rightarrow> byte list) \<Rightarrow> FileOption" where
  "WithHashing h f = Inr (f\<lparr>hashing := Some h\<rparr>)"

definition WithAppendOnly :: "bool \<Rightarrow> FileOption" where
  "WithAppendOnly a f = Inr (f\<lparr>appendOnly := a\<rparr>)"

definition WithForceSync :: "bool \<Rightarrow> FileOption" where
  "WithForceSync b f = Inr (f\<lparr>forceSync := b\<rparr>)"

text \<open>
  No option of part_000 sets \<^verbatim>\<open>quorumFail\<close>; code of the package sets the field with an
  option of this shape.
\<close>

definition withQuorumFail :: "quorumFailEnum \<Rightarrow> FileOption" where
  "withQuorumFail q f = Inr (f\<lparr>quorumFail := q\<rparr>)"

text \<open>The loop of part_002, lines 23-27.\<close>

fun apply_opts :: "FileOption list \<Rightarrow> File \<Rightarrow> error + File" where
  "apply_opts [] f = Inr f"
| "apply_opts (opt # opts) f =
     (case opt f of Inl e \<Rightarrow> Inl e | Inr f1 \<Rightarrow> apply_opts opts f1)"

section \<open>The world outside the handle\<close>

text \<open>
  What the calls of the \<^verbatim>\<open>os\<close> package that take a path return: \<^verbatim>\<open>os.OpenFile\<close> (path,
  flags, permissions), \<^verbatim>\<open>os.Create\<close> and \<^verbatim>\<open>os.MkdirAll\<close>. \<open>pool_hashes\<close> is the content
  of the slice that \<^verbatim>\<open>hashPool.Get()\<close> hands out: empty when it is fresh, the digests
  of an earlier call when it is reused.
\<close>

record env =
  openFile :: "string \<Rightarrow> nat \<Rightarrow> nat \<Rightarrow> error + osfile"
  createFile :: "string \<Rightarrow> error + osfile"
  mkdirAll :: "string \<Rightarrow> nat \<Rightarrow> error option"
  pool_hashes :: "byte list option list"

section \<open>Consensus\<close>

text \<open>part_002, \<^verbatim>\<open>isSourceOfTruth\<close>. Times are counted from the zero time.\<close>

fun isSourceOfTruth ::
  "fileinfo \<Rightarrow> quorumFailEnum \<Rightarrow> int \<Rightarrow> int \<Rightarrow> int \<Rightarrow> int \<Rightarrow> bool" where
  "isSourceOfTruth info QFError i index size0 t = False"
| "isSourceOfTruth info QFWriteFirst i index size0 t = (fi_modtime info < t \<or> t = 0)"
| "isSourceOfTruth info QFWriteLast i index size0 t = (fi_modtime info > t)"
| "isSourceOfTruth info QFOrderFirst i index size0 t = (index < 0 \<or> i < index)"
| "isSourceOfTruth info QFOrderLast i index size0 t = (i > index)"
| "isSourceOfTruth info QFLongest i index size0 t = (fi_size info > size0)"
| "isSourceOfTruth info QFShortest i index size0 t = (size0 < 0 \<or> fi_size info < size0)"
| "isSourceOfTruth info QFShortestNonZero i index size0 t =
     (fi_size info > 0 \<and> fi_size info < size0)"

text \<open>\<^verbatim>\<open>binary.LittleEndian.PutUint64\<close>.\<close>

definition PutUint64 :: "64 word \<Rightarrow> byte list" where
  "PutUint64 v =
     [ucast v, ucast (drop_bit 8 v), ucast (drop_bit 16 v), ucast (drop_bit 24 v),
      ucast (drop_bit 32 v), ucast (drop_bit 40 v), ucast (drop_bit 48 v),
      ucast (drop_bit 56 v)]"

text \<open>\<^verbatim>\<open>bytes.Equal\<close>: a nil slice and an empty slice are equal.\<close>

definition bytes_Equal :: "byte list option \<Rightarrow> byte list option \<Rightarrow> bool" where
  "bytes_Equal a b = (case_option [] id a = case_option [] id b)"

text \<open>The local variables of \<^verbatim>\<open>consensus\<close>.\<close>

record scan =
  foundDir :: bool
  foundFile :: bool
  sourceIndex :: int
  sourceSize :: int
  sourceMod :: int
  hashes :: "byte list option list"
  sizes :: "int list"

text \<open>
  part_002, \<^verbatim>\<open>consensus\<close>, the loop of lines 92-132, from index \<open>k - 1\<close> down to 0.
\<close>

primrec scan_loop :: "File \<Rightarrow> nat \<Rightarrow> scan \<Rightarrow> File \<times> (error + scan)" where
  "scan_loop f 0 s = (f, Inr s)"
| "scan_loop f (Suc i) s =
     (case multi f ! i of
        None \<Rightarrow> scan_loop f i s
      | Some h \<Rightarrow>
          (let f1 = logop i OpStat f
           in (case file_Stat (Some h) of
                 Inl e \<Rightarrow> scan_loop f1 i s
               | Inr info \<Rightarrow>
                   (let s1 = (if fi_isdir info then s\<lparr>foundDir := True\<rparr>
                              else s\<lparr>foundFile := True\<rparr>)
                    in if foundDir s1 \<and> foundFile s1
                       then (f1, Inl (Wrap ''mismatched file types'' ErrInvalid))
                       else
                         (let s2 = (if isSourceOfTruth info (quorumFail f1) (int i)
                                         (sourceIndex s1) (sourceSize s1) (sourceMod s1)
                                    then s1\<lparr>sourceSize := fi_size info,
                                            sourceMod := fi_modtime info,
                                            sourceIndex := int i\<rparr>
                                    else s1);
                              s3 = s2\<lparr>sizes := sizes s2 @ [fi_size info]\<rparr>
                          in if fi_size info = 0 then scan_loop f1 i s3
                             else
                               (case hashing f1 of
                                  None \<Rightarrow>
                                    scan_loop f1 i
                                      (s3\<lparr>hashes := (hashes s3)
                                            [i := Some (PutUint64 (word_of_int (fi_size info)))]\<rparr>)
                                | Some H \<Rightarrow>
                                    (case file_ReadAll (multi f1 ! i) of
                                       (r1, res) \<Rightarrow>
                                         (let f2 = logop i OpReadAll
                                                     (f1\<lparr>multi := (multi f1)[i := r1]\<rparr>)
                                          in (case res of
                                                Inl e \<Rightarrow> scan_loop f2 i s3
                                              | Inr d \<Rightarrow>
                                                  scan_loop f2 i
                                                    (s3\<lparr>hashes := (hashes s3)
                                                          [i := Some (H d)]\<rparr>))))))))))"

text \<open>Lines 136-142: every digest equals its right neighbour.\<close>

fun allEqual :: "byte list option list \<Rightarrow> bool" where
  "allEqual (a # b # rest) = (bytes_Equal a b \<and> allEqual (b # rest))"
| "allEqual _ = True"

text \<open>
  Lines 153-163, from index \<open>k - 1\<close> down to 0: the index at which the count of a digest
  reaches the quorum, if any. The map \<^verbatim>\<open>hashMatches\<close> is a function, absent keys count 0.
\<close>

primrec find_quorum ::
  "int \<Rightarrow> byte list option list \<Rightarrow> nat \<Rightarrow> (byte list \<Rightarrow> int) \<Rightarrow> nat option" where
  "find_quorum q hs 0 hashMatches = None"
| "find_quorum q hs (Suc i) hashMatches =
     (case hs ! i of
        None \<Rightarrow> find_quorum q hs i hashMatches
      | Some h \<Rightarrow>
          (let hashMatches1 = hashMatches(h := hashMatches h + 1)
           in if hashMatches1 h \<ge> q then Some i
              else find_quorum q hs i hashMatches1))"

section \<open>Repair\<close>

text \<open>\<^verbatim>\<open>sizes[i]\<close>: an index out of range panics.\<close>

definition size_at :: "int list \<Rightarrow> nat \<Rightarrow> error + int" where
  "size_at sz i = (if i < length sz then Inr (sz ! i) else Inl (Panic ''index out of range''))"

text \<open>
  \<^verbatim>\<open>io.Copy(f.multi[i], f.multi[index])\<close>: reads the source from its seek position to
  its end and writes what it read to the destination at the destination's seek
  position. The state, the number of bytes written and the error.
\<close>

definition io_Copy :: "File \<Rightarrow> nat \<Rightarrow> nat \<Rightarrow> File \<times> nat \<times> error option" where
  "io_Copy f i index =
     (case file_ReadAll (multi f ! index) of
        (src1, res) \<Rightarrow>
          (let f1 = logop index OpReadAll (f\<lparr>multi := (multi f)[index := src1]\<rparr>)
           in (case res of
                 Inl e \<Rightarrow> (f1, 0, Some e)
               | Inr d \<Rightarrow>
                   if d = [] then (f1, 0, None)
                   else
                     (case file_Write (multi f1 ! i) d of
                        (dst1, p, werr) \<Rightarrow>
                          (let f2 = logop i (OpWrite d) (f1\<lparr>multi := (multi f1)[i := dst1]\<rparr>)
                           in (case werr of
                                 Some e \<Rightarrow> (f2, p, Some e)
                               | None \<Rightarrow>
                                   if p < length d then (f2, p, Some ErrShortWrite)
                                   else (f2, p, None)))))))"

text \<open>
  part_002, \<^verbatim>\<open>source\<close>, the loop of lines 220-235 for replica \<open>i\<close>; both \<open>i\<close> and \<open>index\<close>
  are within \<open>sz\<close> when it is reached. \<open>None\<close>: the loop does not end.
\<close>

partial_function (option) copy_loop ::
  "File \<Rightarrow> nat \<Rightarrow> nat \<Rightarrow> int list \<Rightarrow> (File \<times> int list \<times> error option) option" where
  "copy_loop f i index sz =
     (if sz ! i < sz ! index then
        (case file_ReadAt (multi f ! index) 1000000 (sz ! i) of
           (chunk, err) \<Rightarrow>
             (let f1 = logop index (OpReadAt 1000000 (sz ! i)) f
              in if err \<noteq> None \<and> \<not> errors_Is (the err) EOF
                 then Some (f1, sz,
                        Some (errorf_path f1 index ''read failed for existing file '' (the err)))
                 else
                   (case file_Write (multi f1 ! i) chunk of
                      (r1, p, err2) \<Rightarrow>
                        (let f2 = logop i (OpWrite chunk) (f1\<lparr>multi := (multi f1)[i := r1]\<rparr>)
                         in (case err2 of
                               Some e \<Rightarrow>
                                 Some (f2, sz,
                                   Some (errorf_path f2 i ''write failed for existing file '' e))
                             | None \<Rightarrow>
                                 if p \<noteq> length chunk
                                 then Some (f2, sz,
                                        Some (errorf_path f2 i ''write failed for existing file ''
                                                ErrShortWrite))
                                 else copy_loop f2 i index
                                        (sz[i := sz ! i + int (length chunk)]))))))
      else Some (f, sz, None))"

text \<open>Lines 192-207: the slot is nil, the file is created and the source copied.\<close>

definition create_copy ::
  "env \<Rightarrow> nat \<Rightarrow> nat \<Rightarrow> File \<Rightarrow> int list \<Rightarrow> File \<times> error option" where
  "create_copy ev index i f sz =
     (case path_at f i of
        Inl p \<Rightarrow> (f, Some p)
      | Inr path \<Rightarrow>
          (case createFile ev path of
             Inl e \<Rightarrow> (logop i OpCreate f, Some (Wrap (''create failed for '' @ path) e))
           | Inr h \<Rightarrow>
               (case io_Copy (logop i OpCreate (f\<lparr>multi := (multi f)[i := Some h]\<rparr>)) i index of
                  (f1, n, err) \<Rightarrow>
                    if err \<noteq> None \<and> \<not> errors_Is (the err) EOF
                    then (f1, Some (Wrap (''copy failed for new file '' @ path) (the err)))
                    else (case size_at sz index of
                            Inl p \<Rightarrow> (f1, Some p)
                          | Inr s \<Rightarrow>
                              if int n \<noteq> s
                              then (f1, Some (Wrap (''copy failed for new file '' @ path)
                                                ErrShortWrite))
                              else (f1, None)))))"

text \<open>Lines 208-213: outside append-only mode the replica is emptied first.\<close>

definition truncate_first :: "nat \<Rightarrow> File \<Rightarrow> int list \<Rightarrow> File \<times> int list \<times> error option" where
  "truncate_first i f sz =
     (if appendOnly f then (f, sz, None)
      else if \<not> i < length sz then (f, sz, Some (Panic ''index out of range''))
      else
        (case file_Truncate (multi f ! i) 0 of
           (r1, terr) \<Rightarrow>
             (let f1 = logop i (OpTruncate 0) (f\<lparr>multi := (multi f)[i := r1]\<rparr>)
              in (f1, sz[i := 0],
                  map_option (errorf_path f1 i ''trunc failed for existing file '') terr))))"

text \<open>
  One pass of the loop of lines 181-236, for replica \<open>i\<close>: the state, the sizes and the
  error with which \<^verbatim>\<open>source\<close> returns, if it does. \<open>None\<close>: the pass does not end.
\<close>

definition source_step ::
  "env \<Rightarrow> bool \<Rightarrow> nat \<Rightarrow> byte list option list \<Rightarrow> nat \<Rightarrow> File \<Rightarrow> int list
     \<Rightarrow> (File \<times> int list \<times> error option) option" where
  "source_step ev isDir index hs i f sz =
     (if i = index \<or> bytes_Equal (hs ! i) (hs ! index) then Some (f, sz, None)
      else if isDir then
        (case path_at f i of
           Inl p \<Rightarrow> Some (f, sz, Some p)
         | Inr path \<Rightarrow>
             Some (logop i OpMkdirAll f, sz,
                   map_option (Wrap (''mkdir failed for '' @ path)) (mkdirAll ev path (perms f))))
      else if multi f ! i = None then
        (case create_copy ev index i f sz of (f1, err) \<Rightarrow> Some (f1, sz, err))
      else
        (case truncate_first i f sz of
           (f1, sz1, Some e) \<Rightarrow> Some (f1, sz1, Some e)
         | (f1, sz1, None) \<Rightarrow>
             (case size_at sz1 i of
                Inl p \<Rightarrow> Some (f1, sz1, Some p)
              | Inr si \<Rightarrow>
                  (case size_at sz1 index of
                     Inl p \<Rightarrow> Some (f1, sz1, Some p)
                   | Inr sx \<Rightarrow>
                       if si > sx then
                         (case file_Truncate (multi f1 ! i) sx of
                            (r1, terr) \<Rightarrow>
                              (let f2 = logop i (OpTruncate sx)
                                          (f1\<lparr>multi := (multi f1)[i := r1]\<rparr>)
                               in Some (f2, sz1,
                                    map_option
                                      (errorf_path f2 i ''trunc failed for existing file '')
                                      terr)))
                       else copy_loop f1 i index sz1))))"

text \<open>The loop of lines 181-236 over the indices of \<^verbatim>\<open>f.multi\<close>.\<close>

fun source_loop ::
  "env \<Rightarrow> bool \<Rightarrow> nat \<Rightarrow> byte list option list \<Rightarrow> nat list \<Rightarrow> File \<Rightarrow> int list
     \<Rightarrow> (File \<times> error option) option" where
  "source_loop ev isDir index hs [] f sz = Some (f, None)"
| "source_loop ev isDir index hs (i # rest) f sz =
     (case source_step ev isDir index hs i f sz of
        None \<Rightarrow> None
      | Some (f1, sz1, Some e) \<Rightarrow> Some (f1, Some e)
      | Some (f1, sz1, None) \<Rightarrow> source_loop ev isDir index hs rest f1 sz1)"

text \<open>part_002, \<^verbatim>\<open>source\<close>.\<close>

definition source ::
  "env \<Rightarrow> bool \<Rightarrow> nat \<Rightarrow> byte list option list \<Rightarrow> int list \<Rightarrow> File
     \<Rightarrow> (File \<times> error option) option" where
  "source ev isDir index hs sz f =
     (if appendOnly f then
        (case size_at sz index of
           Inl p \<Rightarrow> Some (f, Some p)
         | Inr s \<Rightarrow>
             source_loop ev isDir index hs [0..<length (multi f)]
               (f\<lparr>offset := word_of_int s\<rparr>) sz)
      else source_loop ev isDir index hs [0..<length (multi f)] f sz)"

text \<open>
  part_002, \<^verbatim>\<open>consensus\<close>. The slice \<^verbatim>\<open>hashes\<close> of line 88 has one slot per replica; a
  slot the pooled slice does not cover is nil.
\<close>

definition consensus :: "env \<Rightarrow> File \<Rightarrow> (File \<times> error option) option" where
  "consensus ev f =
     (if length (multi f) = 1 \<and> multi f ! 0 \<noteq> None then Some (f, None)
      else
        (let n = length (multi f);
             hs0 = take n (pool_hashes ev @ replicate n None)
         in (case scan_loop f n
                    \<lparr>foundDir = False, foundFile = False, sourceIndex = - 1,
                     sourceSize = - 1, sourceMod = 0, hashes = hs0, sizes = []\<rparr> of
               (f1, Inl e) \<Rightarrow> Some (f1, Some e)
             | (f1, Inr s) \<Rightarrow>
                 if n = 0 then Some (f1, Some (Panic ''slice bounds out of range''))
                 else if allEqual (hashes s) then
                   (if appendOnly f1 then
                      (case size_at (sizes s) 0 of
                         Inl p \<Rightarrow> Some (f1, Some p)
                       | Inr z \<Rightarrow> Some (f1\<lparr>offset := word_of_int z\<rparr>, None))
                    else Some (f1, None))
                 else
                   (case find_quorum (quorum f1) (hashes s) n (\<lambda>h. 0) of
                      Some i \<Rightarrow> source ev (foundDir s) i (hashes s) (sizes s) f1
                    | None \<Rightarrow>
                        if sourceSize s = - 1
                        then Some (f1, Some (Errorf ''unable to reach quorum in source''))
                        else if sourceIndex s < 0
                        then Some (f1, Some (Panic ''index out of range''))
                        else source ev (foundDir s) (nat (sourceIndex s))
                               (hashes s) (sizes s) f1))))"

section \<open>New\<close>

text \<open>The loop of part_002, lines 48-56.\<close>

fun open_loop :: "env \<Rightarrow> string \<Rightarrow> string list \<Rightarrow> File \<Rightarrow> error list \<Rightarrow> File \<times> error list" where
  "open_loop ev name [] f errs = (f, errs)"
| "open_loop ev name (v # vs) f errs =
     (let f1 = f\<lparr>paths := paths f @ [path_Join v name]\<rparr>
      in (case openFile ev (path_Join v name) (flags f1) (perms f1) of
            Inl e \<Rightarrow> open_loop ev name vs (f1\<lparr>multi := multi f1 @ [None]\<rparr>) (errs @ [e])
          | Inr h \<Rightarrow> open_loop ev name vs (f1\<lparr>multi := multi f1 @ [Some h]\<rparr>) errs))"

fun is_panic :: "error \<Rightarrow> bool" where
  "is_panic (Panic s) = True"
| "is_panic e = False"

text \<open>The struct literal of part_002, lines 16-20: \<^verbatim>\<open>os.O_RDWR\<close> is 2.\<close>

definition new_File :: File where
  "new_File =
     \<lparr>quorum = 0, volumes = [], flags = 2, perms = 0, hashing = None, appendOnly = False,
      quorumFail = QFError, forceSync = False, paths = [], multi = [], offset = 0,
      lock = GateFree, iolog = []\<rparr>"

text \<open>
  part_002, \<^verbatim>\<open>New\<close>. The result is \<open>None\<close> when the call does not return. Otherwise it
  is the state of the struct and its replicas when the call ends, the returned pointer
  (\<open>None\<close> for nil) and the returned error; a panic leaves through the error component
  and skips the best-effort close.
\<close>

definition New ::
  "string \<Rightarrow> FileOption list \<Rightarrow> env \<Rightarrow> (File \<times> File option \<times> error option) option" where
  "New name opts ev =
     (case apply_opts opts new_File of
        Inl e \<Rightarrow> Some (new_File, None, Some e)
      | Inr f \<Rightarrow>
          if length (volumes f) = 0 then
            (let f1 = f\<lparr>volumes := [path_Clean name], paths := [path_Clean name]\<rparr>
             in (case openFile ev (path_Clean name) (flags f1) (perms f1) of
                   Inl e \<Rightarrow> Some (f1, None, Some e)
                 | Inr h \<Rightarrow> Some (f1\<lparr>multi := [Some h]\<rparr>, Some (f1\<lparr>multi := [Some h]\<rparr>), None)))
          else
            (let f1 = (if quorum f = 0
                       then f\<lparr>quorum := 1 + int (length (volumes f)) div 2\<rparr> else f)
             in (case open_loop ev name (volumes f1) f1 [] of
                   (f2, errs) \<Rightarrow>
                     if int (length (volumes f2)) - int (length errs) < quorum f2 then
                       (case Close f2 of
                          None \<Rightarrow> None
                        | Some (f3, cerr) \<Rightarrow> Some (f3, None, aggErrors errs))
                     else
                       (case consensus ev f2 of
                          None \<Rightarrow> None
                        | Some (f3, None) \<Rightarrow> Some (f3, Some f3, None)
                        | Some (f3, Some e) \<Rightarrow>
                            if is_panic e then Some (f3, None, Some e)
                            else
                              (case Close f3 of
                                 None \<Rightarrow> None
                               | Some (f4, cerr) \<Rightarrow> Some (f4, None, Some e))))))"

section \<open>Notions used in the statements\<close>

subsection \<open>Concrete replicas\<close>

text \<open>
  A regular file just opened: seek position 0, not closed, no injected failure.
\<close>

definition plain_file :: "string \<Rightarrow> byte list \<Rightarrow> osfile" where
  "plain_file nm d =
     \<lparr>fname = nm, fdata = d, fpos = 0, fisdir = False, fmodtime = 1, fclosed = False,
      stat_fault = None, read_fault = None, write_fault = None, trunc_fault = None,
      sync_fault = None, close_fault = None\<rparr>"

text \<open>
  A world given by the files that exist, path and content: opening a listed path
  succeeds, any other path fails; creating a file and making a directory succeed;
  the pooled digest slice is fresh.
\<close>

definition disk :: "(string \<times> byte list) list \<Rightarrow> env" where
  "disk fs =
     \<lparr>openFile = (\<lambda>p fl pm. case map_of fs p of
                                None \<Rightarrow> Inl (ErrOS ''no such file or directory'')
                              | Some d \<Rightarrow> Inr (plain_file p d)),
      createFile = (\<lambda>p. Inr (plain_file p [])),
      mkdirAll = (\<lambda>p pm. None),
      pool_hashes = []\<rparr>"

subsection \<open>Writing one replica\<close>

text \<open>
  Replica \<open>i\<close> takes the whole buffer at the offset without error and, under
  \<^verbatim>\<open>forceSync\<close>, its flush succeeds.
\<close>

definition write_ok :: "File \<Rightarrow> byte list \<Rightarrow> int64 \<Rightarrow> nat \<Rightarrow> bool" where
  "write_ok f b off i =
     (case file_WriteAt (multi f ! i) b (sint off) of
        (r1, n, err) \<Rightarrow> err = None \<and> n = length b \<and> (forceSync f \<longrightarrow> file_Sync r1 = None))"

text \<open>The state of a replica after the primitive's \<^verbatim>\<open>WriteAt\<close> was called on it.\<close>

definition written :: "byte list \<Rightarrow> int64 \<Rightarrow> osfile option \<Rightarrow> osfile option" where
  "written b off r = fst (file_WriteAt r b (sint off))"

text \<open>The calls made on a replica that is written in full: the write, then the flush.\<close>

definition write_ops :: "File \<Rightarrow> byte list \<Rightarrow> int64 \<Rightarrow> nat \<Rightarrow> (nat \<times> ioop) list" where
  "write_ops f b off i =
     (i, OpWriteAt b (sint off)) # (if forceSync f then [(i, OpSync)] else [])"

text \<open>
  The calls made on the replica at which the write stops: the write, and the flush when
  the write itself went through.
\<close>

definition failed_ops :: "File \<Rightarrow> byte list \<Rightarrow> int64 \<Rightarrow> nat \<Rightarrow> (nat \<times> ioop) list" where
  "failed_ops f b off i =
     (case file_WriteAt (multi f ! i) b (sint off) of
        (r1, n, err) \<Rightarrow>
          (i, OpWriteAt b (sint off))
            # (if err = None \<and> n = length b \<and> forceSync f then [(i, OpSync)] else []))"

subsection \<open>Closing one replica\<close>

text \<open>What closing slot \<open>i\<close> reports; \<open>None\<close> for a nil slot and for a close that succeeds.\<close>

definition close_err :: "File \<Rightarrow> nat \<Rightarrow> error option" where
  "close_err f i = (case multi f ! i of None \<Rightarrow> None | Some h \<Rightarrow> snd (file_Close h))"





subsection \<open>Concrete handles\<close>

text \<open>
  A handle as \<^verbatim>\<open>New\<close> leaves it, over the given paths and replica slots, with a quorum
  of one.
\<close>

definition handle_over :: "(string \<times> osfile option) list \<Rightarrow> File" where
  "handle_over rs =
     new_File\<lparr>quorum := 1, volumes := map fst rs, paths := map fst rs, multi := map snd rs\<rparr>"

text \<open>
  Three replicas holding the same three bytes, the second of which refuses writes;
  \<^verbatim>\<open>forceSync\<close> is set.
\<close>

definition three_replicas :: File where
  "three_replicas =
     (handle_over
        [(''v0/f'', Some (plain_file ''v0/f'' [1, 2, 3])),
         (''v1/f'', Some ((plain_file ''v1/f'' [1, 2, 3])
                           \<lparr>write_fault := Some (WFail (ErrOS ''input/output error''))\<rparr>)),
         (''v2/f'', Some (plain_file ''v2/f'' [1, 2, 3]))])
       \<lparr>forceSync := True\<rparr>"



subsection \<open>Opening and consensus\<close>






text \<open>
  A state of the copy loop of \<^verbatim>\<open>source\<close> that repeats: the size recorded for the source
  slot exceeds the size recorded for the replica, which is at or beyond the real end of
  the source, so that every read returns no byte and \<^verbatim>\<open>io.EOF\<close>.
\<close>

definition stuck :: "File \<Rightarrow> nat \<Rightarrow> nat \<Rightarrow> int list \<Rightarrow> bool" where
  "stuck f i index sz \<longleftrightarrow>
     i < length sz \<and> i < length (multi f) \<and> sz ! i < sz ! index \<and> 0 \<le> sz ! i
     \<and> (\<exists>src. multi f ! index = Some src \<and> \<not> fclosed src \<and> read_fault src = None
               \<and> int (length (fdata src)) \<le> sz ! i)
     \<and> (\<exists>dst. multi f ! i = Some dst \<and> \<not> fclosed dst)"

section \<open>Properties of the I/O surface\<close>

lemma logop_simps [simp]:
  "offset (logop i op f) = offset f" "lock (logop i op f) = lock f"
  "multi (logop i op f) = multi f" "forceSync (logop i op f) = forceSync f"
  "paths (logop i op f) = paths f" "iolog (logop i op f) = iolog f @ [(i, op)]"
  "appendOnly (logop i op f) = appendOnly f" "quorum (logop i op f) = quorum f"
  "hashing (logop i op f) = hashing f" "quorumFail (logop i op f) = quorumFail f"
  "perms (logop i op f) = perms f" "volumes (logop i op f) = volumes f"
  by (simp_all add: logop_def)

lemma write_ok_cong:
  "multi g ! j = multi f ! j \<Longrightarrow> forceSync g = forceSync f \<Longrightarrow>
     write_ok g b off j = write_ok f b off j"
  by (simp add: write_ok_def)

lemma failed_ops_cong:
  "multi g ! j = multi f ! j \<Longrightarrow> forceSync g = forceSync f \<Longrightarrow>
     failed_ops g b off j = failed_ops f b off j"
  by (simp add: failed_ops_def)

lemma write_ops_cong:
  "forceSync g = forceSync f \<Longrightarrow> write_ops g b off = write_ops f b off"
  by (rule ext) (simp add: write_ops_def)

text \<open>One pass over a replica that takes the write.\<close>

lemma WriteAt_loop_step:
  assumes lt: "i < length (multi f)" and ok: "write_ok f b off i"
  shows "\<exists>g. WriteAt_loop f b off i = WriteAt_loop g b off (Suc i)
           \<and> multi g = (multi f)[i := written b off (multi f ! i)]
           \<and> iolog g = iolog f @ write_ops f b off i
           \<and> forceSync g = forceSync f"
proof -
  obtain r1 n e where w: "file_WriteAt (multi f ! i) b (sint off) = (r1, n, e)"
    by (cases "file_WriteAt (multi f ! i) b (sint off)") auto
  from ok w have e: "e = None" and n: "n = length b"
    and s: "forceSync f \<Longrightarrow> file_Sync r1 = None"
    by (simp_all add: write_ok_def)
  show ?thesis
  proof (cases "forceSync f")
    case True
    let ?g = "logop i OpSync (logop i (OpWriteAt b (sint off)) (f\<lparr>multi := (multi f)[i := r1]\<rparr>))"
    have "WriteAt_loop f b off i = WriteAt_loop ?g b off (Suc i)"
      using lt w e n s True by (subst WriteAt_loop.simps) (simp add: Let_def)
    moreover have "multi ?g = (multi f)[i := written b off (multi f ! i)]"
      by (simp add: written_def w)
    moreover have "iolog ?g = iolog f @ write_ops f b off i"
      using True by (simp add: write_ops_def)
    ultimately show ?thesis by (intro exI[of _ ?g]) simp
  next
    case False
    let ?g = "logop i (OpWriteAt b (sint off)) (f\<lparr>multi := (multi f)[i := r1]\<rparr>)"
    have "WriteAt_loop f b off i = WriteAt_loop ?g b off (Suc i)"
      using lt w e n False by (subst WriteAt_loop.simps) (simp add: Let_def)
    moreover have "multi ?g = (multi f)[i := written b off (multi f ! i)]"
      by (simp add: written_def w)
    moreover have "iolog ?g = iolog f @ write_ops f b off i"
      using False by (simp add: write_ops_def)
    ultimately show ?thesis using False by (intro exI[of _ ?g]) simp
  qed
qed

lemma take_map_drop_upd:
  assumes "i < length xs"
  shows "take (Suc i) (xs[i := W (xs ! i)]) @ map W (drop (Suc i) (xs[i := W (xs ! i)]))
           = take i xs @ map W (drop i xs)"
proof -
  have "drop i xs = xs ! i # drop (Suc i) xs" using assms by (simp add: Cons_nth_drop_Suc)
  moreover have "take (Suc i) (xs[i := W (xs ! i)]) = take i xs @ [W (xs ! i)]"
    using assms by (simp add: take_Suc_conv_app_nth)
  ultimately show ?thesis by simp
qed

lemma WriteAt_loop_ok:
  assumes "\<forall>j. i \<le> j \<and> j < length (multi f) \<longrightarrow> write_ok f b off j"
  shows "\<exists>f'. WriteAt_loop f b off i = (f', None)
           \<and> multi f' = take i (multi f) @ map (written b off) (drop i (multi f))
           \<and> iolog f' = iolog f @ concat (map (write_ops f b off) [i..<length (multi f)])"
  using assms
proof (induction "length (multi f) - i" arbitrary: f i)
  case 0
  then show ?case by (simp add: WriteAt_loop.simps)
next
  case (Suc k)
  from Suc.hyps(2) have lt: "i < length (multi f)" by simp
  with Suc.prems have ok: "write_ok f b off i" by simp
  from WriteAt_loop_step[OF lt ok] obtain g where
    g: "WriteAt_loop f b off i = WriteAt_loop g b off (Suc i)"
       "multi g = (multi f)[i := written b off (multi f ! i)]"
       "iolog g = iolog f @ write_ops f b off i" "forceSync g = forceSync f"
    by blast
  have len: "length (multi g) = length (multi f)" by (simp add: g(2))
  have k: "k = length (multi g) - Suc i" using Suc.hyps(2) len by simp
  have oks: "\<forall>j. Suc i \<le> j \<and> j < length (multi g) \<longrightarrow> write_ok g b off j"
  proof (intro allI impI)
    fix j assume j: "Suc i \<le> j \<and> j < length (multi g)"
    then have "multi g ! j = multi f ! j" by (simp add: g(2))
    then have "write_ok g b off j = write_ok f b off j" by (rule write_ok_cong) (rule g(4))
    with Suc.prems j len show "write_ok g b off j" by simp
  qed
  from Suc.hyps(1)[OF k oks] obtain f' where
    f': "WriteAt_loop g b off (Suc i) = (f', None)"
        "multi f' = take (Suc i) (multi g) @ map (written b off) (drop (Suc i) (multi g))"
        "iolog f' = iolog g @ concat (map (write_ops g b off) [Suc i..<length (multi g)])"
    by blast
  have m: "multi f' = take i (multi f) @ map (written b off) (drop i (multi f))"
    using f'(2) take_map_drop_upd[OF lt, of "written b off"] by (simp add: g(2))
  have l: "iolog f' = iolog f @ concat (map (write_ops f b off) [i..<length (multi f)])"
    using f'(3) lt by (simp add: g(3) len write_ops_cong[OF g(4)] upt_conv_Cons)
  show ?case using g(1) f'(1) m l by simp
qed

lemma WriteAt_loop_stop:
  assumes lt: "k < length (multi f)" and bad: "\<not> write_ok f b off k"
  shows "\<exists>f' e. WriteAt_loop f b off k = (f', Some e)
           \<and> multi f' = (multi f)[k := written b off (multi f ! k)]
           \<and> iolog f' = iolog f @ failed_ops f b off k"
proof -
  obtain r1 n e where w: "file_WriteAt (multi f ! k) b (sint off) = (r1, n, e)"
    by (cases "file_WriteAt (multi f ! k) b (sint off)") auto
  show ?thesis
    using lt bad w
    by (subst WriteAt_loop.simps)
       (auto simp: Let_def write_ok_def written_def failed_ops_def split: option.splits)
qed

lemma WriteAt_loop_fail:
  assumes "i \<le> k" "k < length (multi f)"
    and "\<forall>j. i \<le> j \<and> j < k \<longrightarrow> write_ok f b off j" and "\<not> write_ok f b off k"
  shows "\<exists>f' e. WriteAt_loop f b off i = (f', Some e)
           \<and> multi f' = take i (multi f) @ map (written b off) (take (Suc k - i) (drop i (multi f)))
                          @ drop (Suc k) (multi f)
           \<and> iolog f' = iolog f @ concat (map (write_ops f b off) [i..<k]) @ failed_ops f b off k"
  using assms
proof (induction "k - i" arbitrary: f i)
  case 0
  then have ik: "i = k" by simp
  from WriteAt_loop_stop[OF "0.prems"(2) "0.prems"(4)] obtain f' e where
    f': "WriteAt_loop f b off k = (f', Some e)"
        "multi f' = (multi f)[k := written b off (multi f ! k)]"
        "iolog f' = iolog f @ failed_ops f b off k" by blast
  have "(multi f)[k := written b off (multi f ! k)]
          = take k (multi f) @ map (written b off) (take (Suc 0) (drop k (multi f)))
              @ drop (Suc k) (multi f)"
    using "0.prems"(2) by (simp add: upd_conv_take_nth_drop take_Suc_conv_app_nth Cons_nth_drop_Suc[symmetric] take_Suc hd_drop_conv_nth drop_Suc[symmetric] drop_eq_Nil)
  then show ?case using f' ik by auto
next
  case (Suc d)
  from Suc.hyps(2) have ik: "i < k" by simp
  with Suc.prems have lt: "i < length (multi f)" and ok: "write_ok f b off i" by simp_all
  from WriteAt_loop_step[OF lt ok] obtain g where
    g: "WriteAt_loop f b off i = WriteAt_loop g b off (Suc i)"
       "multi g = (multi f)[i := written b off (multi f ! i)]"
       "iolog g = iolog f @ write_ops f b off i" "forceSync g = forceSync f"
    by blast
  have len: "length (multi g) = length (multi f)" by (simp add: g(2))
  have d: "d = k - Suc i" using Suc.hyps(2) by simp
  have gk: "multi g ! k = multi f ! k" using ik by (simp add: g(2))
  have oks: "\<forall>j. Suc i \<le> j \<and> j < k \<longrightarrow> write_ok g b off j"
  proof (intro allI impI)
    fix j assume j: "Suc i \<le> j \<and> j < k"
    then have "multi g ! j = multi f ! j" by (simp add: g(2))
    then have "write_ok g b off j = write_ok f b off j" by (rule write_ok_cong) (rule g(4))
    with Suc.prems j show "write_ok g b off j" by simp
  qed
  have bad: "\<not> write_ok g b off k"
    using Suc.prems(4) write_ok_cong[OF gk g(4)] by simp
  have "Suc i \<le> k" "k < length (multi g)" using ik Suc.prems(2) len by simp_all
  from Suc.hyps(1)[OF d this oks bad] obtain f' e where
    f': "WriteAt_loop g b off (Suc i) = (f', Some e)"
        "multi f' = take (Suc i) (multi g) @ map (written b off) (take (Suc k - Suc i) (drop (Suc i) (multi g)))
                          @ drop (Suc k) (multi g)"
        "iolog f' = iolog g @ concat (map (write_ops g b off) [Suc i..<k]) @ failed_ops g b off k"
    by blast
  have t1: "take (Suc i) (multi g) = take i (multi f) @ [written b off (multi f ! i)]"
    using lt by (simp add: g(2) take_Suc_conv_app_nth)
  have t2: "drop (Suc i) (multi g) = drop (Suc i) (multi f)" by (simp add: g(2))
  have t3: "drop (Suc k) (multi g) = drop (Suc k) (multi f)" using ik by (simp add: g(2))
  have t4: "take (Suc k - i) (drop i (multi f))
              = multi f ! i # take (Suc k - Suc i) (drop (Suc i) (multi f))"
    using lt ik by (simp add: Cons_nth_drop_Suc[symmetric] Suc_diff_le)
  have m: "multi f' = take i (multi f) @ map (written b off) (take (Suc k - i) (drop i (multi f)))
                          @ drop (Suc k) (multi f)"
    unfolding f'(2) t1 t2 t3 t4 by simp
  have l: "iolog f' = iolog f @ concat (map (write_ops f b off) [i..<k]) @ failed_ops f b off k"
    using f'(3) ik by (simp add: g(3) write_ops_cong[OF g(4)] failed_ops_cong[OF gk g(4)] upt_conv_Cons)
  show ?case using g(1) f'(1) m l by simp
qed

lemma close_err_cong:
  "multi g ! j = multi f ! j \<Longrightarrow> close_err g j = close_err f j"
  by (simp add: close_err_def)






lemma WriteAt_loop_frame:
  "WriteAt_loop f b off i = (f', err) \<Longrightarrow>
     offset f' = offset f \<and> lock f' = lock f \<and> length (multi f') = length (multi f)"
proof (induction "length (multi f) - i" arbitrary: f i)
  case 0
  then show ?case by (simp add: WriteAt_loop.simps)
next
  case (Suc k)
  from Suc.hyps(2) have lt: "i < length (multi f)" by simp
  obtain r1 n e where w: "file_WriteAt (multi f ! i) b (sint off) = (r1, n, e)"
    by (cases "file_WriteAt (multi f ! i) b (sint off)") auto
  define f1 where "f1 = logop i (OpWriteAt b (sint off)) (f\<lparr>multi := (multi f)[i := r1]\<rparr>)"
  have k1: "k = length (multi f1) - Suc i" using Suc.hyps(2) by (simp add: f1_def)
  have k2: "k = length (multi (logop i OpSync f1)) - Suc i" using k1 by simp
  have fr1: "offset f1 = offset f \<and> lock f1 = lock f \<and> length (multi f1) = length (multi f)"
    by (simp add: f1_def)
  show ?case
    using Suc.prems lt w fr1 Suc.hyps(1)[OF k1] Suc.hyps(1)[OF k2]
    by (subst (asm) WriteAt_loop.simps)
       (auto simp: Let_def f1_def[symmetric] split: if_splits option.splits)
qed

lemma ReadAt_loop_frame:
  "ReadAt_loop f n off k acc = (f', chunk, err) \<Longrightarrow>
     offset f' = offset f \<and> lock f' = lock f \<and> multi f' = multi f"
  by (induction k arbitrary: f acc) (auto simp: Let_def split: if_splits prod.splits)

lemma ReadAt_offset:
  assumes "ReadAt f n off = Some (f', chunk, err)"
  shows "offset f' = offset f + word_of_nat (length chunk)"
  using assms
  by (auto simp: ReadAt_def split: if_splits gate.splits prod.splits dest!: ReadAt_loop_frame)

lemmas io_defs = handle_over_def new_File_def plain_file_def ReadAt_def Read_def WriteAt_def
  Write_def file_ReadAt_def file_WriteAt_def file_Sync_def file_Close_def Close_def Let_def
  pwrite_def WriteAt_loop.simps Close_loop.simps path_at_def errorf_path_def

section \<open>The cursor under Read and ReadAt\<close>

text \<open>
  Claim C3, as the code has it. Whenever \<^verbatim>\<open>Read\<close> returns, the shared cursor has advanced
  by exactly the number of bytes returned (in 64-bit arithmetic). \<^verbatim>\<open>ReadAt\<close> is the
  function that \<^verbatim>\<open>Read\<close> calls and it holds the cursor update: whenever
  \<^verbatim>\<open>ReadAt(buf, off)\<close> returns, the shared cursor has advanced by the number of bytes
  returned as well, whatever the offset \<open>off\<close> and whatever the replicas answered. The
  cursor is left unchanged by \<^verbatim>\<open>ReadAt\<close> only when no byte is returned.
\<close>

theorem Read_and_ReadAt_advance_cursor:
  "(Read f n = Some (f', chunk, err) \<longrightarrow> offset f' = offset f + word_of_nat (length chunk))
   \<and> (ReadAt f n off = Some (g, chunk', err')
        \<longrightarrow> offset g = offset f + word_of_nat (length chunk'))"
  by (auto simp: Read_def dest: ReadAt_offset)

text \<open>
  The theorem at a handle over one replica holding the bytes 1, 2, 3: reading two bytes
  at offset 1 returns the bytes 2, 3 and moves the cursor from 0 to 2.
\<close>

theorem Read_and_ReadAt_advance_cursor_witness:
  "\<exists>g. ReadAt (handle_over [(''v0/f'', Some (plain_file ''v0/f'' [1, 2, 3]))]) 2 1
          = Some (g, [2, 3], None)
       \<and> offset g = 2"
proof -
  let ?f = "handle_over [(''v0/f'', Some (plain_file ''v0/f'' [1, 2, 3]))]"
  obtain g where g: "ReadAt ?f 2 1 = Some (g, [2, 3], None)"
    by (simp add: io_defs)
  from Read_and_ReadAt_advance_cursor[of ?f 2 g "[2, 3]" None 1 g "[2, 3]" None] g
  have "offset g = offset ?f + word_of_nat (length [2, 3 :: byte])" by blast
  then have "offset g = 2" by (simp add: handle_over_def new_File_def)
  with g show ?thesis by blast
qed

text \<open>
  Claim C3 as it is stated fails: \<^verbatim>\<open>ReadAt\<close> does not leave the shared cursor unchanged.
  On a handle whose cursor is 0, over one replica holding three bytes, \<^verbatim>\<open>ReadAt\<close> of a
  two-byte buffer at offset 1 leaves the cursor at 2.
\<close>

theorem ReadAt_moves_cursor_counterexample:
  "offset (handle_over [(''v0/f'', Some (plain_file ''v0/f'' [1, 2, 3]))]) = 0
   \<and> offset (fst (the (ReadAt
         (handle_over [(''v0/f'', Some (plain_file ''v0/f'' [1, 2, 3]))]) 2 1))) = 2"
  by (simp add: io_defs)

section \<open>The cursor under WriteAt\<close>

text \<open>
  Claim C10. When \<^verbatim>\<open>WriteAt(buf, off)\<close> returns without error, the shared cursor has
  advanced by \<open>len(buf)\<close> (in 64-bit arithmetic), for every offset \<open>off\<close>; \<^verbatim>\<open>Write\<close>
  advances it by the same amount.
\<close>

theorem WriteAt_advances_cursor:
  "(WriteAt f b off = Some (f', n, None) \<longrightarrow> offset f' = offset f + word_of_nat (length b))
   \<and> (Write f b = Some (g, m, None) \<longrightarrow> offset g = offset f + word_of_nat (length b))"
  by (auto simp: Write_def WriteAt_def split: if_splits gate.splits prod.splits option.splits
           dest!: WriteAt_loop_frame)

text \<open>
  The theorem at a handle over one replica: writing two bytes at offset 5 succeeds and
  moves the cursor from 0 to 2.
\<close>

theorem WriteAt_advances_cursor_witness:
  "\<exists>f'. WriteAt (handle_over [(''v0/f'', Some (plain_file ''v0/f'' [1, 2, 3]))]) [7, 8] 5
           = Some (f', 2, None)
       \<and> offset f' = 2"
proof -
  let ?f = "handle_over [(''v0/f'', Some (plain_file ''v0/f'' [1, 2, 3]))]"
  obtain f' where g: "WriteAt ?f [7, 8] 5 = Some (f', 2, None)"
    by (simp add: io_defs)
  from WriteAt_advances_cursor[of ?f "[7, 8]" 5 f' 2] g
  have "offset f' = offset ?f + word_of_nat (length [7, 8 :: byte])" by blast
  then have "offset f' = 2" by (simp add: handle_over_def new_File_def)
  with g show ?thesis by blast
qed

section \<open>The write fan-out\<close>

text \<open>
  Claim C8. On a handle whose gate is free, \<^verbatim>\<open>WriteAt\<close> (and \<^verbatim>\<open>Write\<close>, which is
  \<^verbatim>\<open>WriteAt\<close> at the cursor) calls the replicas in volume order, each with the whole
  buffer at the same offset, and under \<^verbatim>\<open>forceSync\<close> flushes each replica right after
  its write and before the next replica is written. If every replica takes the write
  (and the flush), the call returns \<open>len(buf)\<close> and the cursor advances by \<open>len(buf)\<close>.
  Otherwise it stops at the first replica \<open>k\<close> that reports an error, writes short or
  fails to flush: it returns 0 and an error, the cursor is unchanged, the replicas
  before \<open>k\<close> keep what was written to them (no rollback), and the replicas after \<open>k\<close>
  are not touched.
\<close>

theorem WriteAt_fans_out_in_order:
  assumes "lock f = GateFree" and "multi f \<noteq> []"
  shows "((\<forall>i<length (multi f). write_ok f b off i) \<longrightarrow>
            (\<exists>f'. WriteAt f b off = Some (f', length b, None)
                \<and> offset f' = offset f + word_of_nat (length b)
                \<and> multi f' = map (written b off) (multi f)
                \<and> iolog f' = iolog f @ concat (map (write_ops f b off) [0..<length (multi f)])
                \<and> lock f' = GateFree))
       \<and> (\<forall>k<length (multi f). (\<forall>i<k. write_ok f b off i) \<and> \<not> write_ok f b off k \<longrightarrow>
            (\<exists>f' e. WriteAt f b off = Some (f', 0, Some e)
                \<and> offset f' = offset f
                \<and> multi f' = map (written b off) (take (Suc k) (multi f)) @ drop (Suc k) (multi f)
                \<and> iolog f' = iolog f @ concat (map (write_ops f b off) [0..<k])
                               @ failed_ops f b off k
                \<and> lock f' = GateFree))"
proof (intro conjI impI allI)
  let ?h = "f\<lparr>lock := GateHeld\<rparr>"
  assume all: "\<forall>i<length (multi f). write_ok f b off i"
  have "\<forall>j. 0 \<le> j \<and> j < length (multi ?h) \<longrightarrow> write_ok ?h b off j"
    using all by (simp add: write_ok_def)
  from WriteAt_loop_ok[OF this] obtain f1 where
    f1: "WriteAt_loop ?h b off 0 = (f1, None)"
        "multi f1 = take 0 (multi ?h) @ map (written b off) (drop 0 (multi ?h))"
        "iolog f1 = iolog ?h @ concat (map (write_ops ?h b off) [0..<length (multi ?h)])"
    by blast
  from WriteAt_loop_frame[OF f1(1)] have fr: "offset f1 = offset f" by simp
  have wo: "write_ops ?h b off = write_ops f b off" by (rule write_ops_cong) simp
  show "\<exists>f'. WriteAt f b off = Some (f', length b, None)
                \<and> offset f' = offset f + word_of_nat (length b)
                \<and> multi f' = map (written b off) (multi f)
                \<and> iolog f' = iolog f @ concat (map (write_ops f b off) [0..<length (multi f)])
                \<and> lock f' = GateFree"
    using assms f1 fr wo by (simp add: WriteAt_def)
next
  fix k
  let ?h = "f\<lparr>lock := GateHeld\<rparr>"
  assume k: "k < length (multi f)"
    and pre: "(\<forall>i<k. write_ok f b off i) \<and> \<not> write_ok f b off k"
  have a: "0 \<le> k" "k < length (multi ?h)" using k by simp_all
  have b: "\<forall>j. 0 \<le> j \<and> j < k \<longrightarrow> write_ok ?h b off j"
    using pre by (simp add: write_ok_def)
  have c: "\<not> write_ok ?h b off k" using pre by (simp add: write_ok_def)
  from WriteAt_loop_fail[OF a b c] obtain f1 e where
    f1: "WriteAt_loop ?h b off 0 = (f1, Some e)"
        "multi f1 = take 0 (multi ?h) @ map (written b off) (take (Suc k - 0) (drop 0 (multi ?h)))
                          @ drop (Suc k) (multi ?h)"
        "iolog f1 = iolog ?h @ concat (map (write_ops ?h b off) [0..<k]) @ failed_ops ?h b off k"
    by blast
  from WriteAt_loop_frame[OF f1(1)] have fr: "offset f1 = offset f" by simp
  have wo: "write_ops ?h b off = write_ops f b off" by (rule write_ops_cong) simp
  have fo: "failed_ops ?h b off k = failed_ops f b off k" by (rule failed_ops_cong) simp_all
  show "\<exists>f' e. WriteAt f b off = Some (f', 0, Some e)
                \<and> offset f' = offset f
                \<and> multi f' = map (written b off) (take (Suc k) (multi f)) @ drop (Suc k) (multi f)
                \<and> iolog f' = iolog f @ concat (map (write_ops f b off) [0..<k])
                               @ failed_ops f b off k
                \<and> lock f' = GateFree"
    using assms f1 fr wo fo by (simp add: WriteAt_def)
qed

lemmas w_defs = three_replicas_def handle_over_def new_File_def plain_file_def write_ok_def
  file_WriteAt_def file_Sync_def written_def write_ops_def failed_ops_def pwrite_def

text \<open>
  The theorem at three replicas of which the second refuses the write, under
  \<^verbatim>\<open>forceSync\<close>: the call fails, the cursor stays, the first replica holds the new
  bytes (no rollback) and was flushed before the second was written, the third was
  never touched.
\<close>

theorem WriteAt_fans_out_in_order_witness:
  "\<exists>f' e. WriteAt three_replicas [7, 8] 1 = Some (f', 0, Some e)
      \<and> offset f' = offset three_replicas
      \<and> map (map_option fdata) (multi f') = [Some [1, 7, 8], Some [1, 2, 3], Some [1, 2, 3]]
      \<and> iolog f' = [(0, OpWriteAt [7, 8] 1), (0, OpSync), (1, OpWriteAt [7, 8] 1)]"
proof -
  have 1: "lock three_replicas = GateFree" by (simp add: w_defs)
  have 2: "multi three_replicas \<noteq> []" by (simp add: w_defs)
  have 3: "1 < length (multi three_replicas)" by (simp add: w_defs)
  have 4: "(\<forall>i<1. write_ok three_replicas [7, 8] 1 i) \<and> \<not> write_ok three_replicas [7, 8] 1 1"
    by (simp add: w_defs)
  from WriteAt_fans_out_in_order[OF 1 2, of "[7, 8]" 1] 3 4
  obtain f' e where r: "WriteAt three_replicas [7, 8] 1 = Some (f', 0, Some e)"
    "offset f' = offset three_replicas"
    "multi f' = map (written [7, 8] 1) (take (Suc 1) (multi three_replicas))
                  @ drop (Suc 1) (multi three_replicas)"
    "iolog f' = iolog three_replicas @ concat (map (write_ops three_replicas [7, 8] 1) [0..<1])
                               @ failed_ops three_replicas [7, 8] 1 1"
    by blast
  have m: "map (map_option fdata) (multi f') = [Some [1, 7, 8], Some [1, 2, 3], Some [1, 2, 3]]"
    unfolding r(3) by (simp add: w_defs)
  have l: "iolog f' = [(0, OpWriteAt [7, 8] 1), (0, OpSync), (1, OpWriteAt [7, 8] 1)]"
    unfolding r(4) by (simp add: w_defs)
  show ?thesis
    by (rule exI[of _ f'], rule exI[of _ e]) (simp only: r(1) r(2) m l simp_thms)
qed


section \<open>Close\<close>











section \<open>Properties of opening\<close>















lemma copy_loop_stuck_aux:
  assumes "copy_loop f i index sz = Some y"
  shows "\<not> stuck f i index sz"
proof (rule copy_loop.raw_induct[where P = "\<lambda>f i index sz y. \<not> stuck f i index sz", OF _ assms],
       goal_cases)
  case (1 loop f i index sz y)
  show ?case
  proof
    assume st: "stuck f i index sz"
    then obtain src dst where
      src: "multi f ! index = Some src" "\<not> fclosed src" "read_fault src = None"
           "int (length (fdata src)) \<le> sz ! i"
      and dst: "multi f ! i = Some dst" "\<not> fclosed dst"
      and bnd: "i < length sz" "i < length (multi f)" "sz ! i < sz ! index" "0 \<le> sz ! i"
      unfolding stuck_def by blast
    let ?f1 = "logop index (OpReadAt 1000000 (sz ! i)) f"
    let ?f2 = "logop i (OpWrite []) (?f1\<lparr>multi := (multi ?f1)[i := Some dst]\<rparr>)"
    have rd: "file_ReadAt (multi f ! index) 1000000 (sz ! i) = ([], Some EOF)"
      using src bnd by (simp add: file_ReadAt_def)
    have wr: "file_Write (multi ?f1 ! i) [] = (Some dst, 0, None)"
      using dst by (simp add: file_Write_def)
    have m2: "multi ?f2 = multi f" using dst bnd by (simp add: list_update_same_conv)
    have "loop ?f2 i index sz = Some y"
      using 1(2) bnd rd wr by (simp add: Let_def)
    from 1(1)[OF this] have "\<not> stuck ?f2 i index sz" .
    moreover have "stuck ?f2 i index sz"
      using st unfolding stuck_def m2 .
    ultimately show False by contradiction
  qed
qed

lemma copy_loop_stuck: "stuck f i index sz \<Longrightarrow> copy_loop f i index sz = None"
  using copy_loop_stuck_aux[of f i index sz] by (cases "copy_loop f i index sz") auto

lemma upt_3: "[0..<Suc (Suc (Suc 0))] = [0, Suc 0, Suc (Suc 0)]"
  by (simp add: upt_rec)

lemmas new_defs = New_def new_File_def WithVolumes_def WithQuorum_def WithAppendOnly_def
  WithHashing_def withQuorumFail_def path_Clean_def path_Join_def disk_def plain_file_def
  consensus_def Let_def file_Stat_def PutUint64_def bytes_Equal_def source_def source_step_def
  truncate_first_def size_at_def file_Truncate_def Close_def file_Close_def path_at_def
  errorf_path_def Close_loop.simps create_copy_def io_Copy_def file_ReadAll_def file_Write_def
  file_ReadAt_def pwrite_def

section \<open>Two differing replicas under the Error policy\<close>



section \<open>Opening and the number of volumes that open\<close>




section \<open>The ShortestNonZero policy\<close>


section \<open>Append-only handles over one replica\<close>

text \<open>
  Claim C4, evaluated on the code. Opened append-only over one volume holding three
  bytes, and opened append-only without volumes over a file of three bytes, the handle
  has its cursor at 0, and a \<^verbatim>\<open>Write\<close> of one byte goes to offset 0 and overwrites the
  first byte. Over two volumes that hold the same three bytes the cursor is 3.
\<close>

theorem append_only_single_replica_starts_at_zero:
  "(case New ''f'' [WithVolumes [''v0''], WithAppendOnly True] (disk [(''v0/f'', [9, 8, 7])]) of
      Some (st, Some h, None) \<Rightarrow>
        offset h = 0
        \<and> (case Write h [5] of
              Some (h', n, None) \<Rightarrow>
                iolog h' = [(0, OpWriteAt [5] 0)]
                \<and> map (map_option fdata) (multi h') = [Some [5, 8, 7]]
            | _ \<Rightarrow> False)
    | _ \<Rightarrow> False)
   \<and> (case New ''f'' [WithAppendOnly True] (disk [(''f'', [9, 8, 7])]) of
      Some (st, Some h, None) \<Rightarrow>
        offset h = 0
        \<and> (case Write h [5] of
              Some (h', n, None) \<Rightarrow>
                iolog h' = [(0, OpWriteAt [5] 0)]
                \<and> map (map_option fdata) (multi h') = [Some [5, 8, 7]]
            | _ \<Rightarrow> False)
    | _ \<Rightarrow> False)
   \<and> (case New ''f'' [WithVolumes [''v0'', ''v1''], WithAppendOnly True]
              (disk [(''v0/f'', [9, 8, 7]), (''v1/f'', [9, 8, 7])]) of
      Some (st, Some h, None) \<Rightarrow> offset h = 3
    | _ \<Rightarrow> False)"
  by (simp add: new_defs Write_def WriteAt_def WriteAt_loop.simps file_WriteAt_def)

section \<open>Two replicas against one\<close>

text \<open>
  Claim C1, evaluated on the code: three volumes, quorum 2, two replicas holding the
  byte 1 and one holding the bytes 2, 3; sizes are the digests. When the odd replica is
  on the first or on the second volume, \<^verbatim>\<open>New\<close> rewrites it and all three replicas hold
  the byte 1. When it is on the last volume, \<^verbatim>\<open>New\<close> does not return: the source is
  volume 0, but \<^verbatim>\<open>sizes[0]\<close> is the size of the last volume, 2, so the copy loop waits
  for a second byte that the source does not have. With a hash function configured
  (here the identity) and the odd replica on the first volume, \<^verbatim>\<open>New\<close> succeeds and
  leaves that replica with the bytes 0, 0, 1: hashing left its seek position at 2, and
  the copy writes there. In the scenario of the repository's test (two volumes, quorum
  1, the second file empty) \<^verbatim>\<open>New\<close> succeeds and leaves the second file empty.
\<close>

theorem New_two_against_one:
  "map (map_option fdata) (multi (fst (the
          (New ''f'' [WithVolumes [''v0'', ''v1'', ''v2''], WithQuorum 2]
             (disk [(''v0/f'', [2, 3]), (''v1/f'', [1]), (''v2/f'', [1])])))))
       = [Some [1], Some [1], Some [1]]
   \<and> map (map_option fdata) (multi (fst (the
          (New ''f'' [WithVolumes [''v0'', ''v1'', ''v2''], WithQuorum 2]
             (disk [(''v0/f'', [1]), (''v1/f'', [2, 3]), (''v2/f'', [1])])))))
       = [Some [1], Some [1], Some [1]]
   \<and> New ''f'' [WithVolumes [''v0'', ''v1'', ''v2''], WithQuorum 2]
             (disk [(''v0/f'', [1]), (''v1/f'', [1]), (''v2/f'', [2, 3])]) = None
   \<and> (case New ''f'' [WithVolumes [''v0'', ''v1'', ''v2''], WithQuorum 2, WithHashing id]
               (disk [(''v0/f'', [2, 3]), (''v1/f'', [1]), (''v2/f'', [1])]) of
         Some (st, Some h, None) \<Rightarrow>
           map (map_option fdata) (multi h) = [Some [0, 0, 1], Some [1], Some [1]]
       | _ \<Rightarrow> False)
   \<and> (case New ''my_file'' [WithVolumes [''v1'', ''v2''], WithQuorum 1]
               (disk [(''v1/my_file'', [104, 101, 108, 108, 111]), (''v2/my_file'', [])]) of
         Some (st, Some h, None) \<Rightarrow>
           map (map_option fdata) (multi h) = [Some [104, 101, 108, 108, 111], Some []]
       | _ \<Rightarrow> False)"
proof (intro conjI)
  show "map (map_option fdata) (multi (fst (the
          (New ''f'' [WithVolumes [''v0'', ''v1'', ''v2''], WithQuorum 2]
             (disk [(''v0/f'', [2, 3]), (''v1/f'', [1]), (''v2/f'', [1])])))))
       = [Some [1], Some [1], Some [1]]"
    by (simp add: new_defs copy_loop.simps upt_3)
  show "map (map_option fdata) (multi (fst (the
          (New ''f'' [WithVolumes [''v0'', ''v1'', ''v2''], WithQuorum 2]
             (disk [(''v0/f'', [1]), (''v1/f'', [2, 3]), (''v2/f'', [1])])))))
       = [Some [1], Some [1], Some [1]]"
    by (simp add: new_defs copy_loop.simps upt_3)
  show "New ''f'' [WithVolumes [''v0'', ''v1'', ''v2''], WithQuorum 2]
             (disk [(''v0/f'', [1]), (''v1/f'', [1]), (''v2/f'', [2, 3])]) = None"
    apply (simp add: new_defs upt_3)
    apply (subst copy_loop.simps)
    apply (simp add: new_defs)
    apply (simp add: copy_loop_stuck stuck_def)
    done
  show "case New ''f'' [WithVolumes [''v0'', ''v1'', ''v2''], WithQuorum 2, WithHashing id]
               (disk [(''v0/f'', [2, 3]), (''v1/f'', [1]), (''v2/f'', [1])]) of
         Some (st, Some h, None) \<Rightarrow>
           map (map_option fdata) (multi h) = [Some [0, 0, 1], Some [1], Some [1]]
       | _ \<Rightarrow> False"
    by (simp add: new_defs copy_loop.simps upt_3)
  show "case New ''my_file'' [WithVolumes [''v1'', ''v2''], WithQuorum 1]
               (disk [(''v1/my_file'', [104, 101, 108, 108, 111]), (''v2/my_file'', [])]) of
         Some (st, Some h, None) \<Rightarrow>
           map (map_option fdata) (multi h) = [Some [104, 101, 108, 108, 111], Some []]
       | _ \<Rightarrow> False"
    by (simp add: new_defs copy_loop.simps upt_rec)
qed

end
